theory Spec2Isabelle
  imports Complex_Main "HOL-Library.Sublist"
begin

section \<open>JavaScript values used by the checkout code\<close>

text \<open>
  Document identifiers are the hexadecimal strings that arrive in \<open>req.params\<close>;
  instants are milliseconds since the epoch, as \<open>Date.now()\<close> returns them.
  The mapper casts a string to an \<open>ObjectId\<close> when it consists of 24 hexadecimal
  digits, and throws a \<open>CastError\<close> on a string that it cannot cast.
\<close>

type_synonym object_id = string
type_synonym time = nat

definition is_hex_digit :: "char \<Rightarrow> bool" where
  "is_hex_digit c = (c \<in> set ''0123456789abcdefABCDEF'')"

definition is_object_id :: "string \<Rightarrow> bool" where
  "is_object_id s = (length s = 24 \<and> list_all is_hex_digit s)"

text \<open>
  A \<open>Number\<close> path of a schema that is neither required nor defaulted reads as
  \<open>undefined\<close> when the document does not store it. Arithmetic on \<open>undefined\<close>
  gives \<open>NaN\<close>. A finite number is modelled by the real that the double denotes.
  Adding zero to a double is exact. A product of two doubles is rounded by the runtime:
  the product is a parameter \<open>fmul\<close> of the model, of which nothing is assumed.
\<close>

datatype jsnum = Undefined | NaN | Num real

text \<open>The condition of \<open>x ? a : b\<close>: \<open>undefined\<close>, \<open>NaN\<close> and \<open>0\<close> are falsy.\<close>

fun truthy :: "jsnum \<Rightarrow> bool" where
  "truthy (Num x) = (x \<noteq> 0)"
| "truthy Undefined = False"
| "truthy NaN = False"

text \<open>The operator \<open>+\<close> on two values of which neither is a string.\<close>

fun js_add :: "jsnum \<Rightarrow> jsnum \<Rightarrow> jsnum" where
  "js_add (Num a) (Num b) = Num (a + b)"
| "js_add _ _ = NaN"

text \<open>The operator \<open>*\<close>, over the runtime's product of two doubles.\<close>

fun js_times :: "(real \<Rightarrow> real \<Rightarrow> real) \<Rightarrow> jsnum \<Rightarrow> jsnum \<Rightarrow> jsnum" where
  "js_times fmul (Num a) (Num b) = Num (fmul a b)"
| "js_times fmul _ _ = NaN"

text \<open>
  \<open>x / 100\<close> in \<open>createCardOrder\<close>: the quotient is only stored on the order, and
  the model stores the real quotient that the runtime rounds.
\<close>

fun js_div100 :: "jsnum \<Rightarrow> jsnum" where
  "js_div100 (Num a) = Num (a / 100)"
| "js_div100 _ = NaN"

section \<open>Documents\<close>

text \<open>\<open>models/cartModel.js\<close>: a cart line; \<open>quantity\<close> defaults to 1, so it is always a number.\<close>

record cart_item =
  item_product :: object_id
  item_quantity :: real
  item_color :: "string option"
  item_price :: jsnum

record cart =
  cartItems :: "cart_item list"
  totalCartPrice :: jsnum
  totalPriceAfterDiscount :: jsnum
  cart_user :: object_id

text \<open>\<open>models/orderModel.js\<close>; \<open>createdAt\<close> and \<open>updatedAt\<close> come from \<open>timestamps: true\<close>.\<close>

record address =
  details :: string
  phone :: string
  city :: string
  postalCode :: string

datatype payment_method = Card | Cash

record order =
  order_user :: object_id
  order_cartItems :: "cart_item list"
  taxPrice :: real
  shippingAddress :: "address option"
  shippingPrice :: real
  totalOrderPrice :: jsnum
  paymentMethodType :: payment_method
  isPaid :: bool
  paidAt :: "time option"
  isDelivered :: bool
  deliveredAt :: "time option"
  createdAt :: time
  updatedAt :: time

text \<open>
  \<open>models/productModel.js\<close>. The claims concern the numeric paths a product document
  stores, so these are kept as a map from path name to value; \<open>productSchema_paths\<close>
  lists the paths the schema declares. The schema declares no path \<open>sold\<close>.
\<close>

record product =
  title :: string
  numeric :: "string \<rightharpoonup> real"
  product_updatedAt :: time

definition productSchema_paths :: "string list" where
  "productSchema_paths =
     [''title'', ''slug'', ''description'', ''quantity'', ''price'', ''images'',
      ''category'', ''subcategories'', ''brand'', ''ratingsAverage'', ''ratingsQuantity'']"

record user =
  user_id :: object_id
  email :: string

text \<open>
  The cart collection: its documents are stored under \<open>ObjectId\<close>s, so only
  well-formed identifiers have a cart.
\<close>

typedef cart_collection = "{m :: object_id \<rightharpoonup> cart. dom m \<subseteq> Collect is_object_id}"
  by (rule exI [of _ Map.empty]) simp

setup_lifting type_definition_cart_collection

lift_definition cart_lookup :: "cart_collection \<Rightarrow> object_id \<rightharpoonup> cart" is "\<lambda>m. m" .

lift_definition cart_delete :: "object_id \<Rightarrow> cart_collection \<Rightarrow> cart_collection"
  is "\<lambda>i m. m(i := None)"
  by auto

lift_definition cart_single :: "object_id \<Rightarrow> cart \<Rightarrow> cart_collection"
  is "\<lambda>i c. if is_object_id i then [i \<mapsto> c] else Map.empty"
  by auto

text \<open>The database: one collection per model, keyed by \<open>_id\<close>.\<close>

record db =
  cart_docs :: cart_collection
  orders :: "object_id \<rightharpoonup> order"
  products :: "object_id \<rightharpoonup> product"
  users :: "user list"

text \<open>The carts of a database, by identifier.\<close>

definition carts :: "db \<Rightarrow> object_id \<rightharpoonup> cart" where
  "carts d = cart_lookup (cart_docs d)"

section \<open>Errors and responses\<close>

text \<open>
  Modelled from the spec: \<open>utils/apiError.js\<close> and \<open>middlewares/errorMiddleware.js\<close>
  are not among the sources. An \<open>ApiError\<close> carries a message and a status code, and
  the catch-all responder \<open>globalError\<close> answers with that status and message; every
  other error is answered with 500.
\<close>

datatype js_error =
    ApiError string nat
  | ReferenceError string
  | TypeError string
  | ValidationError string
  | MongoServerError string
  | StripeError string
  | SyntaxError string
  | CastError string

fun globalError :: "js_error \<Rightarrow> nat \<times> string" where
  "globalError (ApiError msg code) = (code, msg)"
| "globalError (ReferenceError msg) = (500, msg)"
| "globalError (TypeError msg) = (500, msg)"
| "globalError (ValidationError msg) = (500, msg)"
| "globalError (MongoServerError msg) = (500, msg)"
| "globalError (StripeError msg) = (500, msg)"
| "globalError (SyntaxError msg) = (500, msg)"
| "globalError (CastError msg) = (500, msg)"

text \<open>
  What a handler wrapped in \<open>asyncHandler\<close> does with the request: it answers with a
  JSON body, with a plain text, with an empty body, or it hands an error to \<open>next\<close>
  (a rejected promise is handed to \<open>next\<close> by the wrapper).
\<close>

datatype 'b outcome = Json nat 'b | Send nat string | End nat | Next js_error

fun http_status :: "'b outcome \<Rightarrow> nat" where
  "http_status (Json c _) = c"
| "http_status (Send c _) = c"
| "http_status (End c) = c"
| "http_status (Next err) = fst (globalError err)"


section \<open>The object-document mapper\<close>

text \<open>
  One clock reading and one freshly generated \<open>_id\<close> accompany each request.
\<close>

record env =
  now :: time
  new_id :: object_id

text \<open>
  \<open>Order.create\<close>: a \<open>Number\<close> path does not accept \<open>NaN\<close>, and \<open>_id\<close> is unique
  in the collection. The stored document carries the creation timestamps.
\<close>

definition Order_create :: "env \<Rightarrow> order \<Rightarrow> db \<Rightarrow> js_error + (order \<times> db)" where
  "Order_create e doc d =
     (if totalOrderPrice doc = NaN
      then Inl (ValidationError ''Order validation failed: totalOrderPrice'')
      else if orders d (new_id e) \<noteq> None
      then Inl (MongoServerError ''E11000 duplicate key error'')
      else let saved = doc\<lparr>createdAt := now e, updatedAt := now e\<rparr>
           in Inr (saved, d\<lparr>orders := (orders d)(new_id e \<mapsto> saved)\<rparr>))"

text \<open>
  An update \<open>{ $inc: { path: amount, ... } }\<close> is a list of paths with amounts.
  Under the schema's strict mode (the default, which \<open>productSchema\<close> keeps) the mapper
  drops from an update every path the schema does not declare.
\<close>

type_synonym inc_update = "(string \<times> real) list"

definition castUpdate :: "string list \<Rightarrow> inc_update \<Rightarrow> inc_update" where
  "castUpdate paths upd = filter (\<lambda>kv. fst kv \<in> set paths) upd"

text \<open>\<open>$inc\<close> adds to a stored number and creates the path when it is not stored.\<close>

fun apply_inc :: "inc_update \<Rightarrow> (string \<rightharpoonup> real) \<Rightarrow> (string \<rightharpoonup> real)" where
  "apply_inc [] m = m"
| "apply_inc ((k, v) # kvs) m =
     apply_inc kvs (m(k \<mapsto> (case m k of None \<Rightarrow> v | Some x \<Rightarrow> x + v)))"

text \<open>
  One \<open>updateOne\<close> operation of \<open>Product.bulkWrite\<close>: the filter \<open>{ _id: pid }\<close> matches
  at most one product; no match changes nothing.
\<close>

definition updateOne :: "time \<Rightarrow> object_id \<times> inc_update \<Rightarrow> (object_id \<rightharpoonup> product) \<Rightarrow> (object_id \<rightharpoonup> product)" where
  "updateOne t op ps =
     (case ps (fst op) of
        None \<Rightarrow> ps
      | Some p \<Rightarrow> ps(fst op \<mapsto>
          p\<lparr>numeric := apply_inc (castUpdate productSchema_paths (snd op)) (numeric p),
            product_updatedAt := t\<rparr>))"

fun bulkWrite :: "time \<Rightarrow> (object_id \<times> inc_update) list \<Rightarrow> (object_id \<rightharpoonup> product) \<Rightarrow> (object_id \<rightharpoonup> product)" where
  "bulkWrite t [] ps = ps"
| "bulkWrite t (op # ops) ps = bulkWrite t ops (updateOne t op ps)"

definition Product_bulkWrite :: "env \<Rightarrow> (object_id \<times> inc_update) list \<Rightarrow> db \<Rightarrow> db" where
  "Product_bulkWrite e ops d = d\<lparr>products := bulkWrite (now e) ops (products d)\<rparr>"

text \<open>
  \<open>Cart.findById\<close>: the identifier is cast first; a string that is not a well-formed
  \<open>ObjectId\<close> makes the query reject with a \<open>CastError\<close>, a well-formed one is
  looked up and gives the cart or \<open>null\<close>.
\<close>

definition Cart_findById :: "string \<Rightarrow> db \<Rightarrow> js_error + cart option" where
  "Cart_findById i d =
     (if is_object_id i then Inr (carts d i)
      else Inl (CastError (''Cast to ObjectId failed for value '' @ i @ '' at path _id for model Cart'')))"

definition Cart_findByIdAndDelete :: "object_id \<Rightarrow> db \<Rightarrow> db" where
  "Cart_findByIdAndDelete cid d = d\<lparr>cart_docs := cart_delete cid (cart_docs d)\<rparr>"

text \<open>
  \<open>User.findOne({ email })\<close>: the first user with that e-mail, or \<open>null\<close>.
  \<open>userSchema\<close> declares \<open>email\<close> with \<open>lowercase: true\<close>, so the mapper puts the
  value of the filter in lower case before it compares (letters outside ASCII are left
  as they are here).
\<close>

definition ascii_lower :: "char \<Rightarrow> char" where
  "ascii_lower c =
     (case map_of (zip ''ABCDEFGHIJKLMNOPQRSTUVWXYZ'' ''abcdefghijklmnopqrstuvwxyz'') c of
        Some l \<Rightarrow> l | None \<Rightarrow> c)"

definition User_findOne :: "string \<Rightarrow> db \<Rightarrow> user option" where
  "User_findOne mail d = find (\<lambda>u. email u = map ascii_lower mail) (users d)"

section \<open>The order service\<close>

text \<open>The fields of an order that \<open>orderSchema\<close> fills in when \<open>create\<close> is not given them.\<close>

definition order_defaults :: "object_id \<Rightarrow> cart_item list \<Rightarrow> address option \<Rightarrow> jsnum \<Rightarrow> order" where
  "order_defaults u items addr price =
     \<lparr>order_user = u, order_cartItems = items, taxPrice = 0, shippingAddress = addr,
      shippingPrice = 0, totalOrderPrice = price, paymentMethodType = Cash,
      isPaid = False, paidAt = None, isDelivered = False, deliveredAt = None,
      createdAt = 0, updatedAt = 0\<rparr>"

text \<open>The \<open>bulkOption\<close> array both order paths build from the cart lines.\<close>

definition bulkOption :: "cart_item list \<Rightarrow> (object_id \<times> inc_update) list" where
  "bulkOption items =
     map (\<lambda>item. (item_product item,
                   [(''quantity'', - item_quantity item), (''sold'', item_quantity item)])) items"

text \<open>The price both handlers take from the cart.\<close>

definition cartPrice :: "cart \<Rightarrow> jsnum" where
  "cartPrice c =
     (if truthy (totalPriceAfterDiscount c) then totalPriceAfterDiscount c else totalCartPrice c)"

text \<open>
  \<open>createCashOrder\<close>. \<open>Order.create\<close> resolves to the created document, which is
  truthy, so the block guarded by \<open>if (order)\<close> runs whenever the order was created.
\<close>

record cash_req =
  cartId :: object_id
  req_user :: object_id
  body_shippingAddress :: "address option"

definition createCashOrder :: "env \<Rightarrow> cash_req \<Rightarrow> db \<Rightarrow> (string \<times> order) outcome \<times> db" where
  "createCashOrder e req d =
     (let tax = Num 0; shipping = Num 0 in
      case Cart_findById (cartId req) d of
        Inl err \<Rightarrow> (Next err, d)
      | Inr None \<Rightarrow>
          (Next (ApiError (''There is no such cart with id '' @ cartId req) 404), d)
      | Inr (Some c) \<Rightarrow>
          let orderPrice = js_add (js_add (cartPrice c) tax) shipping in
          (case Order_create e
                  (order_defaults (req_user req) (cartItems c) (body_shippingAddress req) orderPrice) d of
             Inl err \<Rightarrow> (Next err, d)
           | Inr (created, d1) \<Rightarrow>
               let d2 = Product_bulkWrite e (bulkOption (cartItems c)) d1;
                   d3 = Cart_findByIdAndDelete (cartId req) d2
               in (Json 201 (''success'', created), d3)))"

text \<open>
  \<open>order.save()\<close> on a loaded document: nothing is written when no path was changed;
  otherwise the changed document is stored and \<open>updatedAt\<close> is set to the time of the save.
\<close>

definition Order_save :: "env \<Rightarrow> object_id \<Rightarrow> order \<Rightarrow> order \<Rightarrow> db \<Rightarrow> order \<times> db" where
  "Order_save e oid loaded changed d =
     (if changed = loaded then (changed, d)
      else let saved = changed\<lparr>updatedAt := now e\<rparr>
           in (saved, d\<lparr>orders := (orders d)(oid \<mapsto> saved)\<rparr>))"

definition updateOrderToPaid :: "env \<Rightarrow> object_id \<Rightarrow> db \<Rightarrow> (string \<times> order) outcome \<times> db" where
  "updateOrderToPaid e oid d =
     (case orders d oid of
        None \<Rightarrow> (Next (ApiError (''There is no such a order with this id:'' @ oid) 404), d)
      | Some loaded \<Rightarrow>
          let changed = loaded\<lparr>isPaid := True, paidAt := Some (now e)\<rparr>;
              saved = Order_save e oid loaded changed d
          in (Json 200 (''success'', fst saved), snd saved))"

definition updateOrderToDelivered :: "env \<Rightarrow> object_id \<Rightarrow> db \<Rightarrow> (string \<times> order) outcome \<times> db" where
  "updateOrderToDelivered e oid d =
     (case orders d oid of
        None \<Rightarrow> (Next (ApiError (''There is no such a order with this id:'' @ oid) 404), d)
      | Some loaded \<Rightarrow>
          let changed = loaded\<lparr>isDelivered := True, deliveredAt := Some (now e)\<rparr>;
              saved = Order_save e oid loaded changed d
          in (Json 200 (''success'', fst saved), snd saved))"

text \<open>
  \<open>checkoutSession\<close>. The object handed to \<open>stripe.checkout.sessions.create\<close> is
  \<open>session_request\<close>; the payment provider is a parameter \<open>stripe_create\<close> that
  either rejects or returns its session. The amount is the runtime's product of the
  order price and 100.
\<close>

record checkout_req =
  cs_cartId :: object_id
  user_name :: "string option"
  user_email :: string
  protocol :: string
  host :: string
  cs_shippingAddress :: "address option"

record line_item =
  li_name :: "string option"
  amount :: jsnum
  currency :: string
  li_quantity :: nat

record session_request_body =
  line_items :: "line_item list"
  mode :: string
  success_url :: string
  cancel_url :: string
  sr_customer_email :: string
  sr_client_reference_id :: object_id
  sr_metadata :: "address option"

definition session_request ::
  "(real \<Rightarrow> real \<Rightarrow> real) \<Rightarrow> checkout_req \<Rightarrow> cart \<Rightarrow> session_request_body" where
  "session_request fmul req c =
     (let tax = Num 0; shipping = Num 0;
          orderPrice = js_add (js_add (cartPrice c) tax) shipping
      in \<lparr>line_items =
            [\<lparr>li_name = user_name req, amount = js_times fmul orderPrice (Num 100),
              currency = ''egp'', li_quantity = 1\<rparr>],
          mode = ''payment'',
          success_url = protocol req @ ''://'' @ host req @ ''/orders'',
          cancel_url = protocol req @ ''://'' @ host req @ ''/cart'',
          sr_customer_email = user_email req,
          sr_client_reference_id = cs_cartId req,
          sr_metadata = cs_shippingAddress req\<rparr>)"

definition checkoutSession ::
  "(real \<Rightarrow> real \<Rightarrow> real) \<Rightarrow> (session_request_body \<Rightarrow> js_error + 's) \<Rightarrow>
   checkout_req \<Rightarrow> db \<Rightarrow> (string \<times> 's) outcome \<times> db" where
  "checkoutSession fmul stripe_create req d =
     (case Cart_findById (cs_cartId req) d of
        Inl err \<Rightarrow> (Next err, d)
      | Inr None \<Rightarrow>
          (Next (ApiError (''There is no such cart with id '' @ cs_cartId req) 404), d)
      | Inr (Some c) \<Rightarrow>
          (case stripe_create (session_request fmul req c) of
             Inl err \<Rightarrow> (Next err, d)
           | Inr session \<Rightarrow> (Json 200 (''success'', session), d)))"

text \<open>
  \<open>createCardOrder\<close> is a plain async function: its promise is either fulfilled or
  rejected with an error. A cart identifier that cannot be cast rejects the first query;
  reading \<open>user._id\<close> of \<open>null\<close> or \<open>cart.cartItems\<close> of \<open>null\<close> throws before
  anything is written.
\<close>

record session =
  client_reference_id :: object_id
  metadata :: "address option"
  amount_total :: jsnum
  customer_email :: string

definition createCardOrder :: "env \<Rightarrow> session \<Rightarrow> db \<Rightarrow> js_error option \<times> db" where
  "createCardOrder e s d =
     (let cid = client_reference_id s;
          addr = metadata s;
          oderPrice = js_div100 (amount_total s)
      in case Cart_findById cid d of
           Inl err \<Rightarrow> (Some err, d)
         | Inr found \<Rightarrow>
             (case User_findOne (customer_email s) d of
                None \<Rightarrow> (Some (TypeError ''Cannot read properties of null (reading _id)''), d)
              | Some u \<Rightarrow>
                  (case found of
                     None \<Rightarrow>
                       (Some (TypeError ''Cannot read properties of null (reading cartItems)''), d)
                   | Some c \<Rightarrow>
                       (case Order_create e
                               ((order_defaults (user_id u) (cartItems c) addr oderPrice)
                                  \<lparr>isPaid := True, paidAt := Some (now e),
                                   paymentMethodType := Card\<rparr>) d of
                          Inl err \<Rightarrow> (Some err, d)
                        | Inr (created, d1) \<Rightarrow>
                            let d2 = Product_bulkWrite e (bulkOption (cartItems c)) d1;
                                d3 = Cart_findByIdAndDelete cid d2
                            in (None, d3)))))"

text \<open>
  \<open>webhookCheckout\<close>. \<open>stripe.webhooks.constructEvent\<close> is the provider's signature
  check, a parameter: it throws an error with a message when the payload does not verify
  against the secret, and returns the event otherwise. The card order is started without
  being awaited, so its failure does not change the answer.
\<close>

record webhook_req =
  raw_body :: string
  stripe_signature :: "string option"

record stripe_event =
  event_type :: string
  data_object :: session

definition webhookCheckout ::
  "(string \<Rightarrow> string option \<Rightarrow> string option \<Rightarrow> string + stripe_event) \<Rightarrow> string option \<Rightarrow>
   env \<Rightarrow> webhook_req \<Rightarrow> db \<Rightarrow> (string \<times> bool) outcome \<times> db" where
  "webhookCheckout constructEvent secret e req d =
     (let sig = stripe_signature req in
      case constructEvent (raw_body req) sig secret of
        Inl message \<Rightarrow> (Send 400 (''Webhook Error: '' @ message), d)
      | Inr event \<Rightarrow>
          let d' = (if event_type event = ''checkout.session.completed''
                    then snd (createCardOrder e (data_object event) d) else d)
          in (Json 200 (''received'', True), d'))"

text \<open>Sequences of the operations that write orders, each with its clock reading and fresh id.\<close>

datatype order_op =
    CreateCashOrder cash_req
  | CreateCardOrder session
  | UpdateOrderToPaid object_id
  | UpdateOrderToDelivered object_id

fun step :: "db \<Rightarrow> env \<times> order_op \<Rightarrow> db" where
  "step d (e, CreateCashOrder req) = snd (createCashOrder e req d)"
| "step d (e, CreateCardOrder s) = snd (createCardOrder e s d)"
| "step d (e, UpdateOrderToPaid oid) = snd (updateOrderToPaid e oid d)"
| "step d (e, UpdateOrderToDelivered oid) = snd (updateOrderToDelivered e oid d)"

definition run :: "(env \<times> order_op) list \<Rightarrow> db \<Rightarrow> db" where
  "run ops d = foldl step d ops"

section \<open>The catalogue services\<close>

text \<open>
  A catalogue collection lists its documents with their \<open>_id\<close>, in the order \<open>find\<close>
  returns them. How a filter object selects documents is the mapper's business and is a
  parameter: the mapper first casts the filter by the schema, which either rejects with
  an error (a value that cannot be cast) or gives the condition the documents are tested
  with. The empty filter \<open>{}\<close> needs no cast. The effect of a request body used as an
  update is a function on documents.
\<close>

type_synonym 'd collection = "(object_id \<times> 'd) list"

definition Model_find :: "('d \<Rightarrow> bool) \<Rightarrow> 'd collection \<Rightarrow> 'd list" where
  "Model_find matches coll = filter matches (map snd coll)"

definition Model_findById :: "object_id \<Rightarrow> 'd collection \<Rightarrow> 'd option" where
  "Model_findById i coll = map_of coll i"

definition Model_findByIdAndUpdate ::
  "object_id \<Rightarrow> ('d \<Rightarrow> 'd) \<Rightarrow> 'd collection \<Rightarrow> 'd option \<times> 'd collection" where
  "Model_findByIdAndUpdate i upd coll =
     (case map_of coll i of
        None \<Rightarrow> (None, coll)
      | Some doc \<Rightarrow>
          (Some (upd doc), map (\<lambda>kv. if fst kv = i then (i, upd (snd kv)) else kv) coll))"

definition Model_findByIdAndDelete :: "object_id \<Rightarrow> 'd collection \<Rightarrow> 'd option \<times> 'd collection" where
  "Model_findByIdAndDelete i coll = (map_of coll i, filter (\<lambda>kv. fst kv \<noteq> i) coll)"


subsection \<open>\<open>services/categoryService.js\<close>\<close>


text \<open>
  In \<open>getCategory\<close> the message is built from a variable \<open>id\<close> that the function
  never declares (it reads \<open>req.params.id\<close> only for the query), so building the
  \<open>ApiError\<close> throws a \<open>ReferenceError\<close>, which the wrapper hands to \<open>next\<close>.
\<close>

definition getCategory :: "object_id \<Rightarrow> 'd collection \<Rightarrow> 'd outcome" where
  "getCategory params_id coll =
     (case Model_findById params_id coll of
        None \<Rightarrow> Next (ReferenceError ''id is not defined'')
      | Some document \<Rightarrow> Json 200 document)"

definition updateCategory :: "object_id \<Rightarrow> ('d \<Rightarrow> 'd) \<Rightarrow> 'd collection \<Rightarrow> 'd outcome \<times> 'd collection" where
  "updateCategory params_id body coll =
     (case Model_findByIdAndUpdate params_id body coll of
        (None, coll') \<Rightarrow> (Next (ApiError (''No document for this id '' @ params_id) 404), coll')
      | (Some document, coll') \<Rightarrow> (Json 200 document, coll'))"

definition deleteCategory :: "object_id \<Rightarrow> 'd collection \<Rightarrow> 'd outcome \<times> 'd collection" where
  "deleteCategory params_id coll =
     (case Model_findByIdAndDelete params_id coll of
        (None, coll') \<Rightarrow> (Next (ApiError (''No document for this id '' @ params_id) 404), coll')
      | (Some document, coll') \<Rightarrow> (End 204, coll'))"

subsection \<open>The subcategory service\<close>


definition getSubCategory :: "object_id \<Rightarrow> 'd collection \<Rightarrow> 'd outcome" where
  "getSubCategory params_id coll =
     (case Model_findById params_id coll of
        None \<Rightarrow> Next (ApiError (''No document for this id '' @ params_id) 404)
      | Some document \<Rightarrow> Json 200 document)"

definition updateSubCategory :: "object_id \<Rightarrow> ('d \<Rightarrow> 'd) \<Rightarrow> 'd collection \<Rightarrow> 'd outcome \<times> 'd collection" where
  "updateSubCategory params_id body coll =
     (case Model_findByIdAndUpdate params_id body coll of
        (None, coll') \<Rightarrow> (Next (ApiError (''No document for this id '' @ params_id) 404), coll')
      | (Some document, coll') \<Rightarrow> (Json 200 document, coll'))"

definition deleteSubCategory :: "object_id \<Rightarrow> 'd collection \<Rightarrow> 'd outcome \<times> 'd collection" where
  "deleteSubCategory params_id coll =
     (case Model_findByIdAndDelete params_id coll of
        (None, coll') \<Rightarrow> (Next (ApiError (''No document for this id '' @ params_id) 404), coll')
      | (Some document, coll') \<Rightarrow> (End 204, coll'))"

subsection \<open>The review service\<close>


text \<open>
  \<open>getReview\<close> queries with \<open>find\<close>, which yields an array; an array is an object and
  so is truthy even when it is empty, hence \<open>!document\<close> is false. (The branch behind
  it names \<open>ApiError\<close>, which this file does not import.)
\<close>

definition js_not_array :: "'a list \<Rightarrow> bool" where
  "js_not_array xs = False"

definition getReview :: "(object_id option \<Rightarrow> 'd \<Rightarrow> bool) \<Rightarrow> object_id option \<Rightarrow> 'd collection \<Rightarrow> 'd list outcome" where
  "getReview product_is params_productId coll =
     (let document = Model_find (product_is params_productId) coll
      in if js_not_array document then Next (ReferenceError ''ApiError is not defined'')
         else Json 200 document)"

definition updateReview :: "object_id \<Rightarrow> ('d \<Rightarrow> 'd) \<Rightarrow> 'd collection \<Rightarrow> 'd outcome \<times> 'd collection" where
  "updateReview params_id body coll =
     (case Model_findByIdAndUpdate params_id body coll of
        (None, coll') \<Rightarrow> (Next (ReferenceError ''ApiError is not defined''), coll')
      | (Some document, coll') \<Rightarrow> (Json 200 document, coll'))"

definition deleteReview :: "object_id \<Rightarrow> 'd collection \<Rightarrow> 'd outcome \<times> 'd collection" where
  "deleteReview params_id coll =
     (case Model_findByIdAndDelete params_id coll of
        (None, coll') \<Rightarrow> (Next (ReferenceError ''ApiError is not defined''), coll')
      | (Some document, coll') \<Rightarrow> (End 204, coll'))"

subsection \<open>The brand and user services\<close>



subsection \<open>\<open>services/productService.js\<close>: listing products\<close>








subsection \<open>The list operation of the handler factory\<close>





section \<open>The input sanitiser\<close>

text \<open>
  Request bodies, query strings and route parameters are trees of JavaScript values.
  An object lists its own enumerable keys with their values; an array lists its elements.
\<close>

datatype jsval =
    JUndefined
  | JNull
  | JBool bool
  | JNumber real
  | JString string
  | JArray "jsval list"
  | JObject "(string \<times> jsval) list"




record request =
  body :: jsval
  query :: jsval
  params :: jsval










section \<open>Properties in the words of the specification\<close>


text \<open>A flag that was set before is set after.\<close>

definition flags_kept :: "order \<Rightarrow> order \<Rightarrow> bool" where
  "flags_kept before after =
     ((isPaid before \<longrightarrow> isPaid after) \<and> (isDelivered before \<longrightarrow> isDelivered after))"

section \<open>Example data\<close>

text \<open>
  The cart of the specification's example: \<open>productA\<close> twice at 10 and \<open>productB\<close> once
  at 5, no coupon applied.
\<close>

definition example_cart :: cart where
  "example_cart =
     \<lparr>cartItems =
        [\<lparr>item_product = ''productA'', item_quantity = 2, item_color = None, item_price = Num 10\<rparr>,
         \<lparr>item_product = ''productB'', item_quantity = 1, item_color = None, item_price = Num 5\<rparr>],
      totalCartPrice = Num 25, totalPriceAfterDiscount = Undefined, cart_user = ''user1''\<rparr>"

text \<open>The same cart after a coupon of 100 percent.\<close>

definition free_cart :: cart where
  "free_cart = example_cart\<lparr>totalPriceAfterDiscount := Num 0\<rparr>"

definition example_products :: "object_id \<rightharpoonup> product" where
  "example_products =
     [''productA'' \<mapsto> \<lparr>title = ''A'', numeric = [''quantity'' \<mapsto> 10, ''price'' \<mapsto> 10],
                       product_updatedAt = 0\<rparr>,
      ''productB'' \<mapsto> \<lparr>title = ''B'', numeric = [''quantity'' \<mapsto> 4, ''price'' \<mapsto> 5],
                       product_updatedAt = 0\<rparr>]"

definition example_cart_id :: object_id where
  "example_cart_id = ''64b7f0c2a1d3e4f5a6b7c8c1''"

text \<open>A well-formed identifier that no cart has, and a string that is no identifier.\<close>

definition unknown_cart_id :: object_id where
  "unknown_cart_id = ''64b7f0c2a1d3e4f5a6b7c8c9''"

definition malformed_cart_id :: string where
  "malformed_cart_id = ''cart9''"

definition example_db :: "cart \<Rightarrow> db" where
  "example_db c =
     \<lparr>cart_docs = cart_single example_cart_id c, orders = Map.empty,
      products = example_products,
      users = [\<lparr>user_id = ''user1'', email = ''user1@example.com''\<rparr>]\<rparr>"

definition example_req :: cash_req where
  "example_req =
     \<lparr>cartId = example_cart_id, req_user = ''user1'', body_shippingAddress = None\<rparr>"

definition example_checkout_req :: "object_id \<Rightarrow> checkout_req" where
  "example_checkout_req cid =
     \<lparr>cs_cartId = cid, user_name = None, user_email = ''user1@example.com'',
      protocol = ''https'', host = ''shop.example.com'', cs_shippingAddress = None\<rparr>"

definition example_env :: env where
  "example_env = \<lparr>now = 1000, new_id = ''order1''\<rparr>"

definition later_env :: env where
  "later_env = \<lparr>now = 2000, new_id = ''order2''\<rparr>"

text \<open>An order placed at instant 500, and one that has been paid and delivered since.\<close>

definition example_order :: order where
  "example_order =
     (order_defaults ''user1'' (cartItems example_cart) None (Num 25))
       \<lparr>createdAt := 500, updatedAt := 500\<rparr>"

definition completed_order :: order where
  "completed_order =
     example_order\<lparr>isPaid := True, paidAt := Some 600, isDelivered := True,
                   deliveredAt := Some 700, updatedAt := 700\<rparr>"

definition example_order_db :: "order \<Rightarrow> db" where
  "example_order_db ordr = (example_db example_cart)\<lparr>orders := [''order0'' \<mapsto> ordr]\<rparr>"

definition example_ops :: "(env \<times> order_op) list" where
  "example_ops =
     [(example_env, CreateCashOrder example_req),
      (later_env, UpdateOrderToPaid ''order0''),
      (later_env, UpdateOrderToDelivered ''order1'')]"


text \<open>A signature check that rejects every payload.\<close>

definition reject_all :: "string \<Rightarrow> string option \<Rightarrow> string option \<Rightarrow> string + stripe_event" where
  "reject_all payload header secret = Inl ''No signatures found matching the expected signature for payload''"

text \<open>\<open>models/categoryModel.js\<close>, and a collection of two categories.\<close>

record category =
  category_name :: string
  category_slug :: string

definition example_categories :: "category collection" where
  "example_categories =
     [(''64b7f0c2a1d3e4f5a6b7c801'', \<lparr>category_name = ''Phones'', category_slug = ''phones''\<rparr>),
      (''64b7f0c2a1d3e4f5a6b7c802'', \<lparr>category_name = ''Laptops'', category_slug = ''laptops''\<rparr>)]"




section \<open>The cart collection\<close>

lemma carts_well_formed: "carts d i = Some c \<Longrightarrow> is_object_id i"
  using Rep_cart_collection [of "cart_docs d"]
  by (auto simp: carts_def cart_lookup.rep_eq)

lemma carts_other_fields:
  "carts (d\<lparr>orders := x\<rparr>) = carts d"
  "carts (d\<lparr>products := y\<rparr>) = carts d"
  by (simp_all add: carts_def)

lemma carts_delete: "carts (Cart_findByIdAndDelete i d) = (carts d)(i := None)"
  by (simp add: carts_def Cart_findByIdAndDelete_def cart_delete.rep_eq cart_lookup.rep_eq)

lemma Cart_findById_found: "carts d i = Some c \<Longrightarrow> Cart_findById i d = Inr (Some c)"
  using carts_well_formed [of d i c] by (simp add: Cart_findById_def)



lemma example_ids:
  "is_object_id example_cart_id" "is_object_id unknown_cart_id" "\<not> is_object_id malformed_cart_id"
  by (simp_all add: is_object_id_def is_hex_digit_def example_cart_id_def unknown_cart_id_def
        malformed_cart_id_def)

lemma carts_example_db: "carts (example_db c) = [example_cart_id \<mapsto> c]"
  using example_ids(1)
  by (simp add: carts_def example_db_def cart_single.rep_eq cart_lookup.rep_eq)

lemma example_db_fields:
  "orders (example_db c) = Map.empty"
  "products (example_db c) = example_products"
  by (simp_all add: example_db_def)

section \<open>Cash orders: the price\<close>

lemma cartPrice_cases:
  "cartPrice c = (if \<exists>x. totalPriceAfterDiscount c = Num x \<and> x \<noteq> 0
                  then totalPriceAfterDiscount c else totalCartPrice c)"
  by (cases "totalPriceAfterDiscount c") (simp_all add: cartPrice_def)

lemma createCashOrder_found:
  assumes "carts d (cartId req) = Some c" and "orders d (new_id e) = None"
    and "cartPrice c = Num p"
  shows "createCashOrder e req d =
     (let saved = (order_defaults (req_user req) (cartItems c) (body_shippingAddress req) (Num p))
                    \<lparr>createdAt := now e, updatedAt := now e\<rparr>
      in (Json 201 (''success'', saved),
          Cart_findByIdAndDelete (cartId req)
            (Product_bulkWrite e (bulkOption (cartItems c))
               (d\<lparr>orders := (orders d)(new_id e \<mapsto> saved)\<rparr>))))"
  using assms
  by (simp add: createCashOrder_def Cart_findById_found Order_create_def Let_def
        order_defaults_def)

text \<open>A cart that stores neither total has no price to charge, and no order is created.\<close>

lemma createCashOrder_no_price:
  assumes "carts d (cartId req) = Some c" and "\<forall>p. cartPrice c \<noteq> Num p"
  shows "createCashOrder e req d =
           (Next (ValidationError ''Order validation failed: totalOrderPrice''), d)"
  using assms
  by (cases "cartPrice c")
     (simp_all add: createCashOrder_def Cart_findById_found Order_create_def Let_def
        order_defaults_def)

lemma example_cash_order:
  "createCashOrder example_env example_req (example_db example_cart) =
     (Json 201 (''success'', example_order\<lparr>createdAt := 1000, updatedAt := 1000\<rparr>),
      Cart_findByIdAndDelete example_cart_id
        (Product_bulkWrite example_env (bulkOption (cartItems example_cart))
           ((example_db example_cart)
              \<lparr>orders := [''order1'' \<mapsto> example_order\<lparr>createdAt := 1000, updatedAt := 1000\<rparr>]\<rparr>)))"
proof -
  have "cartPrice example_cart = Num 25"
    by (simp add: cartPrice_def example_cart_def)
  moreover have "carts (example_db example_cart) (cartId example_req) = Some example_cart"
    by (simp add: carts_example_db example_req_def)
  moreover have "orders (example_db example_cart) (new_id example_env) = None"
    by (simp add: example_db_fields)
  ultimately show ?thesis
    using createCashOrder_found
            [of "example_db example_cart" example_req example_cart example_env 25]
    by (simp add: example_db_fields example_req_def example_env_def example_order_def Let_def)
qed

lemma createCashOrder_duplicate_id:
  assumes "carts d (cartId req) = Some c" and "orders d (new_id e) = Some other"
    and "cartPrice c = Num p"
  shows "createCashOrder e req d = (Next (MongoServerError ''E11000 duplicate key error''), d)"
  using assms
  by (simp add: createCashOrder_def Cart_findById_found Order_create_def Let_def
        order_defaults_def)

lemma createCashOrder_created:
  assumes found: "carts d (cartId req) = Some c"
    and answer: "createCashOrder e req d = (Json code (st, ordr), d')"
  shows "totalOrderPrice ordr = js_add (js_add (cartPrice c) (Num 0)) (Num 0)
       \<and> taxPrice ordr = 0 \<and> shippingPrice ordr = 0
       \<and> orders d' (new_id e) = Some ordr \<and> code = 201"
proof (cases "\<exists>p. cartPrice c = Num p")
  case False
  then have "createCashOrder e req d =
               (Next (ValidationError ''Order validation failed: totalOrderPrice''), d)"
    using createCashOrder_no_price [OF found] by blast
  with answer show ?thesis by simp
next
  case True
  then obtain p where p: "cartPrice c = Num p" by blast
  show ?thesis
  proof (cases "orders d (new_id e)")
    case (Some other)
    from createCashOrder_duplicate_id [OF found Some p] answer show ?thesis by simp
  next
    case None
    from createCashOrder_found [OF found None p] answer
    have "ordr = (order_defaults (req_user req) (cartItems c) (body_shippingAddress req) (Num p))
                    \<lparr>createdAt := now e, updatedAt := now e\<rparr>"
      and "d' = Cart_findByIdAndDelete (cartId req)
            (Product_bulkWrite e (bulkOption (cartItems c))
               (d\<lparr>orders := (orders d)(new_id e \<mapsto> ordr)\<rparr>))"
      and "code = 201"
      by (simp_all add: Let_def)
    then show ?thesis
      using p by (simp add: order_defaults_def Cart_findByIdAndDelete_def Product_bulkWrite_def)
  qed
qed

text \<open>
  Claim C1, as amended. For every existing cart, an order that \<open>createCashOrder\<close>
  creates has as its \<open>totalOrderPrice\<close> the cart's \<open>totalPriceAfterDiscount\<close> when that
  is a number other than zero, and otherwise the cart's \<open>totalCartPrice\<close>, plus a tax
  price of 0 and a shipping price of 0; the order's own \<open>taxPrice\<close> and \<open>shippingPrice\<close>
  are 0. The order is created whenever that price is a number and the order identifier
  is fresh.
\<close>

theorem createCashOrder_totalOrderPrice:
  assumes "carts d (cartId req) = Some c"
  shows "(\<forall>code st ordr d'. createCashOrder e req d = (Json code (st, ordr), d') \<longrightarrow>
            totalOrderPrice ordr =
              js_add (js_add (if \<exists>x. totalPriceAfterDiscount c = Num x \<and> x \<noteq> 0
                              then totalPriceAfterDiscount c else totalCartPrice c)
                             (Num 0)) (Num 0)
            \<and> taxPrice ordr = 0 \<and> shippingPrice ordr = 0
            \<and> orders d' (new_id e) = Some ordr)
       \<and> (\<forall>p. orders d (new_id e) = None
              \<and> ((totalPriceAfterDiscount c = Num p \<and> p \<noteq> 0) \<or>
                  (\<not> (\<exists>x. totalPriceAfterDiscount c = Num x \<and> x \<noteq> 0)
                   \<and> totalCartPrice c = Num p)) \<longrightarrow>
              (\<exists>ordr d'. createCashOrder e req d = (Json 201 (''success'', ordr), d')
                 \<and> totalOrderPrice ordr = Num p))"
proof -
  have created: "\<forall>code st ordr d'. createCashOrder e req d = (Json code (st, ordr), d') \<longrightarrow>
            totalOrderPrice ordr =
              js_add (js_add (if \<exists>x. totalPriceAfterDiscount c = Num x \<and> x \<noteq> 0
                              then totalPriceAfterDiscount c else totalCartPrice c)
                             (Num 0)) (Num 0)
            \<and> taxPrice ordr = 0 \<and> shippingPrice ordr = 0
            \<and> orders d' (new_id e) = Some ordr"
    unfolding cartPrice_cases [of c, symmetric]
    using createCashOrder_created [OF assms] by blast
  have creates: "\<exists>ordr d'. createCashOrder e req d = (Json 201 (''success'', ordr), d')
                 \<and> totalOrderPrice ordr = Num p"
    if fresh: "orders d (new_id e) = None"
      and price: "(totalPriceAfterDiscount c = Num p \<and> p \<noteq> 0) \<or>
                  (\<not> (\<exists>x. totalPriceAfterDiscount c = Num x \<and> x \<noteq> 0)
                   \<and> totalCartPrice c = Num p)"
    for p
  proof -
    have "cartPrice c = Num p"
      using price by (auto simp: cartPrice_cases)
    from createCashOrder_found [OF assms fresh this] show ?thesis
      by (simp add: Let_def order_defaults_def)
  qed
  show ?thesis using created creates by blast
qed

text \<open>
  The specification's example: two of \<open>productA\<close> at 10 and one of \<open>productB\<close> at 5,
  \<open>totalCartPrice\<close> 25 and no discount, give an order of 25.
\<close>

theorem createCashOrder_totalOrderPrice_witness:
  "(\<exists>ordr d'. createCashOrder example_env example_req (example_db example_cart)
                 = (Json 201 (''success'', ordr), d')
       \<and> totalOrderPrice ordr = Num 25)
   \<and> fst (createCashOrder example_env example_req (example_db example_cart))
       = Json 201 (''success'', example_order\<lparr>createdAt := 1000, updatedAt := 1000\<rparr>)
   \<and> totalOrderPrice (example_order\<lparr>createdAt := 1000, updatedAt := 1000\<rparr>) = Num 25"
proof -
  have found: "carts (example_db example_cart) (cartId example_req) = Some example_cart"
    by (simp add: carts_example_db example_req_def)
  have fresh: "orders (example_db example_cart) (new_id example_env) = None"
    by (simp add: example_db_fields)
  have price: "(totalPriceAfterDiscount example_cart = Num 25 \<and> (25::real) \<noteq> 0) \<or>
               (\<not> (\<exists>x. totalPriceAfterDiscount example_cart = Num x \<and> x \<noteq> 0)
                \<and> totalCartPrice example_cart = Num 25)"
    by (simp add: example_cart_def)
  note general = createCashOrder_totalOrderPrice [OF found, of example_env]
  have "\<exists>ordr d'. createCashOrder example_env example_req (example_db example_cart)
                 = (Json 201 (''success'', ordr), d')
       \<and> totalOrderPrice ordr = Num 25"
    using general fresh price by blast
  moreover have "totalOrderPrice (example_order\<lparr>createdAt := 1000, updatedAt := 1000\<rparr>) = Num 25"
    by (simp add: example_order_def order_defaults_def)
  ultimately show ?thesis
    by (simp add: example_cash_order)
qed

text \<open>
  Claim C1 as stated fails where the discounted total is present and zero: the cart
  stores \<open>totalPriceAfterDiscount = 0\<close>, and the order is charged the 25 of
  \<open>totalCartPrice\<close>.
\<close>

theorem createCashOrder_present_zero_discount_counterexample:
  "totalPriceAfterDiscount free_cart = Num 0
   \<and> fst (createCashOrder example_env example_req (example_db free_cart)) =
       Json 201 (''success'',
         (order_defaults ''user1'' (cartItems free_cart) None (Num 25))
           \<lparr>createdAt := 1000, updatedAt := 1000\<rparr>)"
proof -
  have "cartPrice free_cart = Num 25"
    by (simp add: cartPrice_def free_cart_def example_cart_def)
  moreover have "carts (example_db free_cart) (cartId example_req) = Some free_cart"
    by (simp add: carts_example_db example_req_def)
  moreover have "orders (example_db free_cart) (new_id example_env) = None"
    by (simp add: example_db_fields)
  ultimately have "fst (createCashOrder example_env example_req (example_db free_cart)) =
      Json 201 (''success'',
        (order_defaults (req_user example_req) (cartItems free_cart)
           (body_shippingAddress example_req) (Num 25))
          \<lparr>createdAt := now example_env, updatedAt := now example_env\<rparr>)"
    using createCashOrder_found [of "example_db free_cart" example_req free_cart example_env 25]
    by (simp add: Let_def)
  then show ?thesis
    by (simp add: example_req_def example_env_def free_cart_def)
qed

section \<open>The fallback on a falsy discounted total\<close>

lemma session_request_amount:
  "line_items (session_request fmul req c) =
     [\<lparr>li_name = user_name req,
       amount = js_times fmul (js_add (js_add (cartPrice c) (Num 0)) (Num 0)) (Num 100),
       currency = ''egp'', li_quantity = 1\<rparr>]"
  by (simp add: session_request_def Let_def)

text \<open>
  Claim C9. When a cart's \<open>totalPriceAfterDiscount\<close> is 0, \<open>createCashOrder\<close> charges the
  pre-discount \<open>totalCartPrice\<close>, and \<open>checkoutSession\<close> asks the payment provider for
  the runtime's product of that total and 100; the discounted total is the price only
  when it is not zero.
\<close>

theorem zero_discount_falls_back:
  assumes "carts d cid = Some c"
    and "totalPriceAfterDiscount c = Num 0" and "totalCartPrice c = Num t"
    and "cartId req = cid" and "cs_cartId creq = cid" and "orders d (new_id e) = None"
  shows "(\<exists>ordr d'. createCashOrder e req d = (Json 201 (''success'', ordr), d')
            \<and> totalOrderPrice ordr = Num t)
       \<and> fst (checkoutSession fmul stripe_create creq d) =
           (case stripe_create (session_request fmul creq c) of
              Inl err \<Rightarrow> Next err | Inr s \<Rightarrow> Json 200 (''success'', s))
       \<and> map amount (line_items (session_request fmul creq c)) = [Num (fmul t 100)]
       \<and> (\<forall>c'. cartPrice c' = (if \<exists>x. totalPriceAfterDiscount c' = Num x \<and> x \<noteq> 0
                                then totalPriceAfterDiscount c' else totalCartPrice c'))"
proof -
  have cp: "cartPrice c = Num t"
    using assms(2,3) by (simp add: cartPrice_def)
  have "\<exists>ordr d'. createCashOrder e req d = (Json 201 (''success'', ordr), d')
            \<and> totalOrderPrice ordr = Num t"
    using createCashOrder_found [of d req c e t] assms cp
    by (simp add: Let_def order_defaults_def)
  moreover have "fst (checkoutSession fmul stripe_create creq d) =
           (case stripe_create (session_request fmul creq c) of
              Inl err \<Rightarrow> Next err | Inr s \<Rightarrow> Json 200 (''success'', s))"
    using assms Cart_findById_found [of d cid c]
    by (simp add: checkoutSession_def split: sum.splits)
  moreover have "map amount (line_items (session_request fmul creq c)) = [Num (fmul t 100)]"
    by (simp add: session_request_amount cp)
  moreover have "\<forall>c'. cartPrice c' = (if \<exists>x. totalPriceAfterDiscount c' = Num x \<and> x \<noteq> 0
                                then totalPriceAfterDiscount c' else totalCartPrice c')"
    using cartPrice_cases by blast
  ultimately show ?thesis by blast
qed

text \<open>On the example cart after a coupon of 100 percent; 25 times 100 is exact for doubles.\<close>

theorem zero_discount_falls_back_witness:
  "(\<exists>ordr d'. createCashOrder example_env example_req (example_db free_cart)
                  = (Json 201 (''success'', ordr), d')
        \<and> totalOrderPrice ordr = Num 25)
   \<and> map amount (line_items (session_request (\<lambda>a b. a * b)
                                (example_checkout_req example_cart_id) free_cart))
        = [Num (25 * 100)]"
proof -
  have h1: "carts (example_db free_cart) example_cart_id = Some free_cart"
    by (simp add: carts_example_db)
  have h2: "totalPriceAfterDiscount free_cart = Num 0"
    by (simp add: free_cart_def)
  have h3: "totalCartPrice free_cart = Num 25"
    by (simp add: free_cart_def example_cart_def)
  have h4: "cartId example_req = example_cart_id"
    by (simp add: example_req_def)
  have h5: "cs_cartId (example_checkout_req example_cart_id) = example_cart_id"
    by (simp add: example_checkout_req_def)
  have h6: "orders (example_db free_cart) (new_id example_env) = None"
    by (simp add: example_db_fields)
  from zero_discount_falls_back [OF h1 h2 h3 h4 h5 h6, of "\<lambda>a b. a * b"] show ?thesis
    by blast
qed

section \<open>Cash orders: a cart that does not exist\<close>










section \<open>Cash orders: stock and cart\<close>

lemma delete_other_fields:
  "orders (Cart_findByIdAndDelete i d) = orders d"
  "products (Cart_findByIdAndDelete i d) = products d"
  by (simp_all add: Cart_findByIdAndDelete_def)

lemma castUpdate_bulk:
  "castUpdate productSchema_paths [(''quantity'', a), (''sold'', b)] = [(''quantity'', a)]"
  by (simp add: castUpdate_def productSchema_paths_def)

lemma updateOne_line:
  "updateOne t (pid, [(''quantity'', - q), (''sold'', q)]) ps =
     (case ps pid of
        None \<Rightarrow> ps
      | Some p \<Rightarrow> ps(pid \<mapsto> p\<lparr>numeric := (numeric p)(''quantity'' \<mapsto>
                        (case numeric p ''quantity'' of None \<Rightarrow> - q | Some x \<Rightarrow> x + - q)),
                      product_updatedAt := t\<rparr>))"
  by (simp add: updateOne_def castUpdate_bulk split: option.splits)

lemma bulkWrite_absent:
  "ps pid = None \<Longrightarrow> bulkWrite t (bulkOption items) ps pid = None"
proof (induction items arbitrary: ps)
  case Nil
  then show ?case by (simp add: bulkOption_def)
next
  case (Cons i items)
  let ?ps1 = "updateOne t (item_product i,
                [(''quantity'', - item_quantity i), (''sold'', item_quantity i)]) ps"
  have "?ps1 pid = None"
    using Cons.prems by (auto simp: updateOne_line split: option.splits)
  with Cons.IH [of ?ps1] show ?case by (simp add: bulkOption_def)
qed

text \<open>
  What the bulk write does to one product: its \<open>quantity\<close> falls by the quantities of
  all the cart lines that refer to it, and its \<open>sold\<close> is what it was.
\<close>

lemma bulkWrite_line_items:
  assumes "ps pid = Some p"
  shows "\<exists>p'. bulkWrite t (bulkOption items) ps pid = Some p'
           \<and> numeric p' ''sold'' = numeric p ''sold''
           \<and> (\<forall>q. numeric p ''quantity'' = Some q \<longrightarrow>
                 numeric p' ''quantity'' =
                   Some (q - sum_list (map item_quantity
                                         (filter (\<lambda>i. item_product i = pid) items))))"
  using assms
proof (induction items arbitrary: ps p)
  case Nil
  then show ?case by (simp add: bulkOption_def)
next
  case (Cons i items)
  let ?ps1 = "updateOne t (item_product i,
                [(''quantity'', - item_quantity i), (''sold'', item_quantity i)]) ps"
  have unfold: "bulkWrite t (bulkOption (i # items)) ps = bulkWrite t (bulkOption items) ?ps1"
    by (simp add: bulkOption_def)
  show ?case
  proof (cases "item_product i = pid")
    case True
    let ?p1 = "p\<lparr>numeric := (numeric p)(''quantity'' \<mapsto>
                   (case numeric p ''quantity'' of
                      None \<Rightarrow> - item_quantity i | Some x \<Rightarrow> x + - item_quantity i)),
                product_updatedAt := t\<rparr>"
    have "?ps1 pid = Some ?p1"
      using True Cons.prems by (simp add: updateOne_line)
    with Cons.IH [of ?ps1 ?p1] obtain p' where
      p': "bulkWrite t (bulkOption items) ?ps1 pid = Some p'"
          "numeric p' ''sold'' = numeric ?p1 ''sold''"
          "\<forall>q. numeric ?p1 ''quantity'' = Some q \<longrightarrow>
                 numeric p' ''quantity'' =
                   Some (q - sum_list (map item_quantity
                                         (filter (\<lambda>i. item_product i = pid) items)))"
      by blast
    have "numeric p' ''sold'' = numeric p ''sold''"
      using p'(2) by simp
    moreover have "\<forall>q. numeric p ''quantity'' = Some q \<longrightarrow>
                 numeric p' ''quantity'' =
                   Some (q - sum_list (map item_quantity
                                         (filter (\<lambda>i. item_product i = pid) (i # items))))"
      using p'(3) True by (auto simp: algebra_simps)
    ultimately show ?thesis using p'(1) unfold by simp
  next
    case False
    have "?ps1 pid = Some p"
      using False Cons.prems by (simp add: updateOne_line split: option.splits)
    with Cons.IH [of ?ps1 p] show ?thesis using False unfold by simp
  qed
qed

text \<open>
  After a successful cash order the cart is gone, every product's stock has fallen by
  what the cart held of it, and no product's \<open>sold\<close> has moved.
\<close>

lemma createCashOrder_stock:
  assumes "fst (createCashOrder e req d) = Json 201 b" and "carts d (cartId req) = Some c"
    and "products d pid = Some p"
  shows "carts (snd (createCashOrder e req d)) (cartId req) = None
       \<and> (\<exists>p'. products (snd (createCashOrder e req d)) pid = Some p'
           \<and> numeric p' ''sold'' = numeric p ''sold''
           \<and> (\<forall>q. numeric p ''quantity'' = Some q \<longrightarrow>
                 numeric p' ''quantity'' =
                   Some (q - sum_list (map item_quantity
                                         (filter (\<lambda>i. item_product i = pid) (cartItems c))))))"
proof -
  obtain st ordr where b: "b = (st, ordr)" by (cases b)
  obtain d' where d': "createCashOrder e req d = (Json 201 (st, ordr), d')"
    using assms(1) b by (cases "createCashOrder e req d") simp
  have "\<exists>q. cartPrice c = Num q"
    using createCashOrder_no_price [OF assms(2), of e] d' by auto
  then obtain q where q: "cartPrice c = Num q" by blast
  have fresh: "orders d (new_id e) = None"
    using createCashOrder_duplicate_id [OF assms(2) _ q, of e] d'
    by (cases "orders d (new_id e)") auto
  from createCashOrder_found [OF assms(2) fresh q]
  have result: "snd (createCashOrder e req d) =
      Cart_findByIdAndDelete (cartId req)
        (Product_bulkWrite e (bulkOption (cartItems c))
           (d\<lparr>orders := (orders d)(new_id e \<mapsto>
               (order_defaults (req_user req) (cartItems c) (body_shippingAddress req) (Num q))
                 \<lparr>createdAt := now e, updatedAt := now e\<rparr>)\<rparr>))"
    by (simp add: Let_def)
  have "carts (snd (createCashOrder e req d)) (cartId req) = None"
    unfolding result by (simp add: carts_delete)
  moreover have "products (snd (createCashOrder e req d)) =
                   bulkWrite (now e) (bulkOption (cartItems c)) (products d)"
    unfolding result by (simp add: Cart_findByIdAndDelete_def Product_bulkWrite_def)
  ultimately show ?thesis
    using bulkWrite_line_items [of "products d" pid p "now e" "cartItems c"] assms(3)
    by simp
qed

text \<open>
  Claim C2, evaluated on the specification's example. The order is created, the cart is
  deleted and \<open>productA\<close> goes from 10 in stock to 8, but it stores no \<open>sold\<close> counter
  before or after: \<open>productSchema\<close> declares no such path, so the increment never
  reaches the document.
\<close>

theorem createCashOrder_sold_not_incremented:
  "fst (createCashOrder example_env example_req (example_db example_cart)) =
     Json 201 (''success'', example_order\<lparr>createdAt := 1000, updatedAt := 1000\<rparr>)
   \<and> map_option (\<lambda>p. (numeric p ''quantity'', numeric p ''sold''))
        (products (example_db example_cart) ''productA'') = Some (Some 10, None)
   \<and> map_option (\<lambda>p. (numeric p ''quantity'', numeric p ''sold''))
        (products (snd (createCashOrder example_env example_req (example_db example_cart)))
           ''productA'')
       = Some (Some 8, None)
   \<and> carts (snd (createCashOrder example_env example_req (example_db example_cart)))
        example_cart_id = None"
  unfolding example_cash_order
  by (simp add: carts_delete carts_other_fields delete_other_fields Product_bulkWrite_def
        bulkOption_def updateOne_line example_db_fields example_cart_def example_env_def
        example_products_def)

section \<open>Marking an order paid or delivered\<close>

lemma updateOrderToPaid_found:
  assumes "orders d oid = Some ordr"
  shows "updateOrderToPaid e oid d =
     (if isPaid ordr \<and> paidAt ordr = Some (now e) then (Json 200 (''success'', ordr), d)
      else (Json 200 (''success'',
                      ordr\<lparr>isPaid := True, paidAt := Some (now e), updatedAt := now e\<rparr>),
            d\<lparr>orders := (orders d)(oid \<mapsto>
                 ordr\<lparr>isPaid := True, paidAt := Some (now e), updatedAt := now e\<rparr>)\<rparr>))"
proof -
  have "(ordr\<lparr>isPaid := True, paidAt := Some (now e)\<rparr> = ordr)
          = (isPaid ordr \<and> paidAt ordr = Some (now e))"
    by (cases ordr) auto
  then show ?thesis
    using assms by (auto simp: updateOrderToPaid_def Order_save_def Let_def)
qed

lemma updateOrderToDelivered_found:
  assumes "orders d oid = Some ordr"
  shows "updateOrderToDelivered e oid d =
     (if isDelivered ordr \<and> deliveredAt ordr = Some (now e) then (Json 200 (''success'', ordr), d)
      else (Json 200 (''success'',
                      ordr\<lparr>isDelivered := True, deliveredAt := Some (now e), updatedAt := now e\<rparr>),
            d\<lparr>orders := (orders d)(oid \<mapsto>
                 ordr\<lparr>isDelivered := True, deliveredAt := Some (now e), updatedAt := now e\<rparr>)\<rparr>))"
proof -
  have "(ordr\<lparr>isDelivered := True, deliveredAt := Some (now e)\<rparr> = ordr)
          = (isDelivered ordr \<and> deliveredAt ordr = Some (now e))"
    by (cases ordr) auto
  then show ?thesis
    using assms by (auto simp: updateOrderToDelivered_def Order_save_def Let_def)
qed

text \<open>
  Claim C5, as amended. For every existing order, a second \<open>updateOrderToPaid\<close> leaves
  \<open>isPaid\<close> true as the first did; both calls answer 200; the order after the second
  call differs from the order after the first at most in \<open>paidAt\<close> and in \<open>updatedAt\<close>,
  and nothing else in the database differs.
\<close>

theorem updateOrderToPaid_twice:
  assumes "orders d oid = Some ordr"
  shows "\<exists>o1 o2 d1 d2.
            updateOrderToPaid e1 oid d = (Json 200 (''success'', o1), d1)
          \<and> updateOrderToPaid e2 oid d1 = (Json 200 (''success'', o2), d2)
          \<and> orders d1 oid = Some o1 \<and> orders d2 oid = Some o2
          \<and> isPaid o1 \<and> isPaid o2
          \<and> o2\<lparr>paidAt := paidAt o1, updatedAt := updatedAt o1\<rparr> = o1
          \<and> d2 = d1\<lparr>orders := (orders d1)(oid \<mapsto> o2)\<rparr>"
proof -
  obtain o1 d1 where first: "updateOrderToPaid e1 oid d = (Json 200 (''success'', o1), d1)"
      and o1: "orders d1 oid = Some o1" "isPaid o1"
    using updateOrderToPaid_found [OF assms, of e1] assms
    by (cases "isPaid ordr \<and> paidAt ordr = Some (now e1)") auto
  obtain o2 d2 where second: "updateOrderToPaid e2 oid d1 = (Json 200 (''success'', o2), d2)"
      and o2: "orders d2 oid = Some o2" "isPaid o2"
      and rel: "o2\<lparr>paidAt := paidAt o1, updatedAt := updatedAt o1\<rparr> = o1"
               "d2 = d1\<lparr>orders := (orders d1)(oid \<mapsto> o2)\<rparr>"
    using updateOrderToPaid_found [OF o1(1), of e2] o1
    by (cases "isPaid o1 \<and> paidAt o1 = Some (now e2)") (auto simp: fun_upd_idem)
  show ?thesis
    using first second o1 o2 rel by blast
qed

theorem updateOrderToPaid_twice_witness:
  "\<exists>o1 o2 d1 d2.
      updateOrderToPaid example_env ''order0'' (example_order_db example_order)
         = (Json 200 (''success'', o1), d1)
    \<and> updateOrderToPaid later_env ''order0'' d1 = (Json 200 (''success'', o2), d2)
    \<and> orders d1 ''order0'' = Some o1 \<and> orders d2 ''order0'' = Some o2
    \<and> isPaid o1 \<and> isPaid o2
    \<and> o2\<lparr>paidAt := paidAt o1, updatedAt := updatedAt o1\<rparr> = o1
    \<and> d2 = d1\<lparr>orders := (orders d1)(''order0'' \<mapsto> o2)\<rparr>"
  using updateOrderToPaid_twice [of "example_order_db example_order" "''order0''" example_order]
  by (simp add: example_order_db_def)

text \<open>
  Claim C5 as stated fails on \<open>updatedAt\<close>: paid at instant 1000 and again at instant
  2000, the order carries \<open>updatedAt = 1000\<close> after one call and \<open>updatedAt = 2000\<close>
  after two, besides the two values of \<open>paidAt\<close>.
\<close>

theorem updateOrderToPaid_updatedAt_counterexample:
  "map_option (\<lambda>x. (isPaid x, paidAt x, updatedAt x))
     (orders (snd (updateOrderToPaid example_env ''order0'' (example_order_db example_order)))
        ''order0'')
     = Some (True, Some 1000, 1000)
   \<and> map_option (\<lambda>x. (isPaid x, paidAt x, updatedAt x))
     (orders (snd (updateOrderToPaid later_env ''order0''
        (snd (updateOrderToPaid example_env ''order0'' (example_order_db example_order)))))
        ''order0'')
     = Some (True, Some 2000, 2000)"
  by (simp add: updateOrderToPaid_def Order_save_def Let_def example_order_db_def example_order_def
        order_defaults_def example_env_def later_env_def)

section \<open>Orders are kept and their flags only rise\<close>

lemma createCashOrder_keeps_orders:
  "orders d i = Some ordr \<Longrightarrow> orders (snd (createCashOrder e req d)) i = Some ordr"
  by (auto simp: createCashOrder_def Cart_findById_def Order_create_def Let_def
        Cart_findByIdAndDelete_def Product_bulkWrite_def split: option.splits if_splits)

lemma createCardOrder_keeps_orders:
  "orders d i = Some ordr \<Longrightarrow> orders (snd (createCardOrder e s d)) i = Some ordr"
  by (auto simp: createCardOrder_def Cart_findById_def Order_create_def Let_def
        Cart_findByIdAndDelete_def Product_bulkWrite_def split: option.splits if_splits)

lemma updateOrderToPaid_keeps_flags:
  assumes "orders d i = Some ordr"
  shows "\<exists>ordr'. orders (snd (updateOrderToPaid e oid d)) i = Some ordr' \<and> flags_kept ordr ordr'"
proof (cases "orders d oid")
  case None
  then show ?thesis using assms by (simp add: updateOrderToPaid_def flags_kept_def)
next
  case (Some loaded)
  show ?thesis
    using assms Some by (auto simp: updateOrderToPaid_found [OF Some] flags_kept_def)
qed

lemma updateOrderToDelivered_keeps_flags:
  assumes "orders d i = Some ordr"
  shows "\<exists>ordr'. orders (snd (updateOrderToDelivered e oid d)) i = Some ordr' \<and> flags_kept ordr ordr'"
proof (cases "orders d oid")
  case None
  then show ?thesis using assms by (simp add: updateOrderToDelivered_def flags_kept_def)
next
  case (Some loaded)
  show ?thesis
    using assms Some by (auto simp: updateOrderToDelivered_found [OF Some] flags_kept_def)
qed

lemma step_keeps_flags:
  assumes "orders d i = Some ordr"
  shows "\<exists>ordr'. orders (step d x) i = Some ordr' \<and> flags_kept ordr ordr'"
proof (cases x)
  case (Pair e op)
  show ?thesis
  proof (cases op)
    case (CreateCashOrder req)
    then show ?thesis
      using Pair createCashOrder_keeps_orders [OF assms] by (simp add: flags_kept_def)
  next
    case (CreateCardOrder s)
    then show ?thesis
      using Pair createCardOrder_keeps_orders [OF assms] by (simp add: flags_kept_def)
  next
    case (UpdateOrderToPaid oid)
    then show ?thesis
      using Pair updateOrderToPaid_keeps_flags [OF assms] by simp
  next
    case (UpdateOrderToDelivered oid)
    then show ?thesis
      using Pair updateOrderToDelivered_keeps_flags [OF assms] by simp
  qed
qed

text \<open>
  Claim C6. Over every sequence of \<open>createCashOrder\<close>, \<open>createCardOrder\<close>,
  \<open>updateOrderToPaid\<close> and \<open>updateOrderToDelivered\<close>, an order that exists still exists
  afterwards, and if it was paid it is still paid, and if it was delivered it is still
  delivered.
\<close>

theorem order_flags_monotone:
  assumes "orders d i = Some ordr"
  shows "\<exists>ordr'. orders (run ops d) i = Some ordr'
           \<and> (isPaid ordr \<longrightarrow> isPaid ordr') \<and> (isDelivered ordr \<longrightarrow> isDelivered ordr')"
proof -
  have "\<exists>ordr'. orders (foldl step d ops) i = Some ordr' \<and> flags_kept ordr ordr'"
    using assms
  proof (induction ops arbitrary: d ordr)
    case Nil
    then show ?case by (simp add: flags_kept_def)
  next
    case (Cons x ops)
    from step_keeps_flags [OF Cons.prems, of x] obtain mid where
      mid: "orders (step d x) i = Some mid" "flags_kept ordr mid" by blast
    from Cons.IH [OF mid(1)] obtain ordr' where
      "orders (foldl step (step d x) ops) i = Some ordr'" "flags_kept mid ordr'" by blast
    then show ?case using mid(2) by (auto simp: flags_kept_def)
  qed
  then show ?thesis by (simp add: run_def flags_kept_def)
qed

theorem order_flags_monotone_witness:
  "isPaid completed_order \<and> isDelivered completed_order
   \<and> (\<exists>ordr'. orders (run example_ops (example_order_db completed_order)) ''order0'' = Some ordr'
         \<and> isPaid ordr' \<and> isDelivered ordr')"
  using order_flags_monotone
          [of "example_order_db completed_order" "''order0''" completed_order example_ops]
  by (simp add: example_order_db_def completed_order_def)

section \<open>The payment webhook\<close>

text \<open>
  Claim C7. When the signature check rejects the payload, \<open>webhookCheckout\<close> answers
  400 and leaves the database as it was: no order is created, and no product and no cart
  is changed.
\<close>

theorem webhook_bad_signature:
  assumes "constructEvent (raw_body req) (stripe_signature req) secret = Inl message"
  shows "webhookCheckout constructEvent secret e req d =
           (Send 400 (''Webhook Error: '' @ message), d)
       \<and> http_status (fst (webhookCheckout constructEvent secret e req d)) = 400
       \<and> orders (snd (webhookCheckout constructEvent secret e req d)) = orders d
       \<and> products (snd (webhookCheckout constructEvent secret e req d)) = products d
       \<and> carts (snd (webhookCheckout constructEvent secret e req d)) = carts d"
  using assms by (simp add: webhookCheckout_def)

theorem webhook_bad_signature_witness:
  "webhookCheckout reject_all (Some ''whsec_test'') example_env
       \<lparr>raw_body = ''{}'', stripe_signature = Some ''t=1,v1=00''\<rparr> (example_db example_cart) =
     (Send 400 ''Webhook Error: No signatures found matching the expected signature for payload'',
      example_db example_cart)
   \<and> http_status (fst (webhookCheckout reject_all (Some ''whsec_test'') example_env
       \<lparr>raw_body = ''{}'', stripe_signature = Some ''t=1,v1=00''\<rparr> (example_db example_cart))) = 400"
  using webhook_bad_signature
          [of reject_all "\<lparr>raw_body = ''{}'', stripe_signature = Some ''t=1,v1=00''\<rparr>"
              "Some ''whsec_test''"
              "''No signatures found matching the expected signature for payload''"
              example_env "example_db example_cart"]
  by (simp add: reject_all_def)

section \<open>Unknown identifiers in the catalogue services\<close>

text \<open>The handlers that build their message from a declared identifier answer 404 with it.\<close>

lemma filter_absent_id:
  "map_of coll i = None \<Longrightarrow> filter (\<lambda>kv. fst kv \<noteq> i) coll = coll"
  by (induction coll) (auto split: if_splits)

lemma sibling_not_found:
  assumes "Model_findById i coll = None"
  shows "getSubCategory i coll = Next (ApiError (''No document for this id '' @ i) 404)"
    and "updateSubCategory i upd coll = (Next (ApiError (''No document for this id '' @ i) 404), coll)"
    and "deleteSubCategory i coll = (Next (ApiError (''No document for this id '' @ i) 404), coll)"
    and "updateCategory i upd coll = (Next (ApiError (''No document for this id '' @ i) 404), coll)"
    and "deleteCategory i coll = (Next (ApiError (''No document for this id '' @ i) 404), coll)"
  using assms filter_absent_id [of coll i]
  by (simp_all add: getSubCategory_def updateSubCategory_def deleteSubCategory_def
        updateCategory_def deleteCategory_def Model_findByIdAndUpdate_def
        Model_findByIdAndDelete_def Model_findById_def)

lemma getReview_never_404: "\<exists>docs. getReview product_is pid coll = Json 200 docs"
  by (simp add: getReview_def js_not_array_def)

text \<open>
  Claim C4, evaluated at an identifier that no document has. \<open>getCategory\<close> hands
  \<open>next\<close> a \<open>ReferenceError\<close>, which is answered with 500 and does not mention the
  identifier; \<open>getReview\<close> answers 200 with an empty array; \<open>deleteReview\<close> hands
  \<open>next\<close> a \<open>ReferenceError\<close>. \<open>getSubCategory\<close>, on the same input, answers as the
  claim says.
\<close>

theorem getCategory_unknown_id_not_404:
  "Model_findById ''64b7f0c2a1d3e4f5a6b7c899'' example_categories = None
   \<and> getCategory ''64b7f0c2a1d3e4f5a6b7c899'' example_categories
        = Next (ReferenceError ''id is not defined'')
   \<and> http_status (getCategory ''64b7f0c2a1d3e4f5a6b7c899'' example_categories) = 500
   \<and> getReview (\<lambda>pid r. False) (Some ''64b7f0c2a1d3e4f5a6b7c899'') example_categories = Json 200 []
   \<and> fst (deleteReview ''64b7f0c2a1d3e4f5a6b7c899'' example_categories)
        = Next (ReferenceError ''ApiError is not defined'')
   \<and> getSubCategory ''64b7f0c2a1d3e4f5a6b7c899'' example_categories
        = Next (ApiError ''No document for this id 64b7f0c2a1d3e4f5a6b7c899'' 404)"
  by (simp add: getCategory_def getReview_def deleteReview_def getSubCategory_def Model_findById_def
        Model_find_def Model_findByIdAndDelete_def js_not_array_def example_categories_def)

section \<open>List requests\<close>






section \<open>The sanitiser\<close>














end
